theory Spec2Isabelle
  imports
    Main
    "HOL-Library.Word"
    "HOL-Library.Char_ord"
    "HOL-Library.List_Lexorder"
    "HOL-Library.AList"
    "HOL-Library.Multiset"
begin

section \<open>Data model\<close>

text \<open>
  An address is a byte string; \<open>AccAddress.Equals\<close> is equality of the bytes.
  A Go \<open>string\<close> is a byte string as well, and Go's \<open><\<close> and \<open>strings.Compare\<close> on
  strings are the lexicographic order of the unsigned bytes: the order of
  \<^typ>\<open>char list\<close> given by \<open>Char_ord\<close> and \<open>List_Lexorder\<close>.
\<close>

type_synonym AccAddress = string

text \<open>
  \<open>sdk.DecCoin\<close>: a denomination and a fixed-point amount. The amount is kept as the
  integer number of the smallest decimal unit; \<open>Dec.Add\<close> and \<open>Dec.Sub\<close> are exact.
\<close>

record DecCoin =
  Denom :: string
  Amount :: int

type_synonym DecCoins = "DecCoin list"

text \<open>
  The errors the two keepers return. The first five are the \<open>sdk.Err...\<close> constructors
  used by the dex keeper; \<open>ErrNothingLocked\<close> and \<open>ErrLockedInsufficient\<close> are the two
  \<open>fmt.Errorf\<close> values of \<open>updateLockCoins\<close> (``coins locked <0>'' and
  ``coins available <...>''); \<open>ErrSupply\<close> stands for whatever error the supply keeper
  returns; \<open>Panic\<close> is a Go panic (a \<open>DecCoin\<close> operation on two different denoms).
\<close>

datatype error =
    ErrUnknownRequest
  | ErrInvalidAddress
  | ErrInsufficientCoins
  | ErrUnauthorized
  | ErrInternal
  | ErrNothingLocked
  | ErrLockedInsufficient
  | ErrSupply
  | Panic

text \<open>\<open>types.TokenPair\<close>, with the fields the keeper reads or writes.\<close>

record TokenPair =
  BaseAssetSymbol :: string
  QuoteAssetSymbol :: string
  ID :: "64 word"
  Delisting :: bool
  Owner :: AccAddress
  Deposits :: DecCoin

text \<open>\<open>types.WithdrawInfo\<close>; a \<open>time.Time\<close> is its number of nanoseconds.\<close>

record WithdrawInfo =
  wOwner :: AccAddress
  wDeposits :: DecCoin
  CompleteTime :: int

text \<open>
  Modelled from the spec: the keeper's \<open>Cache\<close> type is declared in a file that is not
  part of the sources. The spec describes it as a block-scoped mirror holding the full
  pair map (keyed by \<open>"base_quote"\<close>), the list of pairs newly created in this block, and a
  flag recording any addition. A Go map has no iteration order, so the pair map is an
  association list whose order is arbitrary.
\<close>

record Cache =
  tokenPairMap :: "(string \<times> TokenPair) list"
  newTokenPairMap :: "TokenPair list"
  tokenPairChanged :: bool

text \<open>
  The mutable state the keepers work on: the key-value stores reached through
  \<open>ctx.KVStore\<close>, one field per key prefix, the block time and the \<open>WithdrawPeriod\<close>
  parameter read from \<open>ctx\<close>, the state \<open>'b\<close> of the bank behind the supply keeper
  (accounts and module custody), and the pointee of \<open>k.cache\<close>. Values are stored
  decoded: the codec's marshal followed by unmarshal is the identity. The two
  secondary indexes store an empty value, so they are the sets of their keys.
\<close>

record 'b State =
  bank :: 'b
  lockStore :: "AccAddress \<rightharpoonup> DecCoins"
  tokenPairStore :: "(string \<times> TokenPair) list"
  userTokenPairStore :: "(AccAddress \<times> string) set"
  tokenPairNumber :: "64 word option"
  withdrawInfoStore :: "AccAddress \<rightharpoonup> WithdrawInfo"
  withdrawTimeStore :: "(int \<times> AccAddress) set"
  cache :: Cache
  blockTime :: int
  WithdrawPeriod :: int

text \<open>
  What a keeper is constructed with and the package constants it uses, none of them
  defined in the sources: the two transfer primitives of the supply keeper (a failed
  transfer returns an error and no new bank state), the module's name, and the constants
  \<open>sdk.DefaultBondDenom\<close>, \<open>types.DefaultTokenPairDeposit\<close> and
  \<open>types.LockCoinsTypeQuantity\<close>.
\<close>

record 'b Keeper =
  SendCoinsFromAccountToModule :: "'b \<Rightarrow> AccAddress \<Rightarrow> string \<Rightarrow> DecCoins \<Rightarrow> error + 'b"
  SendCoinsFromModuleToAccount :: "'b \<Rightarrow> string \<Rightarrow> AccAddress \<Rightarrow> DecCoins \<Rightarrow> error + 'b"
  ModuleName :: string
  DefaultBondDenom :: string
  DefaultTokenPairDeposit :: DecCoin
  LockCoinsTypeQuantity :: int

section \<open>Coin arithmetic of the SDK\<close>

text \<open>
  Modelled from the spec: \<open>sdk.DecCoins\<close> and its methods belong to the SDK, not to the
  sources. The spec describes the locked set as sorted and merged by denom, with no
  zero entry, and an unlock as failing when a resulting amount would be negative. The
  definitions follow the SDK's merge of two denom-sorted lists: \<open>Add\<close> walks both lists,
  adds the amounts of equal denoms and drops every zero coin; \<open>SafeSub\<close> adds the
  negated second list and reports whether a negative amount remains.
\<close>

definition DecCoin_IsZero :: "DecCoin \<Rightarrow> bool" where
  "DecCoin_IsZero c = (Amount c = 0)"

definition removeZeroDecCoins :: "DecCoins \<Rightarrow> DecCoins" where
  "removeZeroDecCoins coins = filter (\<lambda>c. \<not> DecCoin_IsZero c) coins"

definition negative :: "DecCoins \<Rightarrow> DecCoins" where
  "negative coins = map (\<lambda>c. c\<lparr>Amount := - Amount c\<rparr>) coins"

fun safeAdd :: "DecCoins \<Rightarrow> DecCoins \<Rightarrow> DecCoins" where
  "safeAdd [] [] = []"
| "safeAdd [] (b # bs) = removeZeroDecCoins (b # bs)"
| "safeAdd (a # as) [] = removeZeroDecCoins (a # as)"
| "safeAdd (a # as) (b # bs) =
     (if Denom a < Denom b then
        (if \<not> DecCoin_IsZero a then [a] else []) @ safeAdd as (b # bs)
      else if Denom a = Denom b then
        (let res = a\<lparr>Amount := Amount a + Amount b\<rparr>
         in (if \<not> DecCoin_IsZero res then [res] else []) @ safeAdd as bs)
      else
        (if \<not> DecCoin_IsZero b then [b] else []) @ safeAdd (a # as) bs)"

definition DecCoins_Add :: "DecCoins \<Rightarrow> DecCoins \<Rightarrow> DecCoins" where
  "DecCoins_Add coins coinsB = safeAdd coins coinsB"

definition IsAnyNegative :: "DecCoins \<Rightarrow> bool" where
  "IsAnyNegative coins = list_ex (\<lambda>c. Amount c < 0) coins"

definition SafeSub :: "DecCoins \<Rightarrow> DecCoins \<Rightarrow> DecCoins \<times> bool" where
  "SafeSub coins coinsB =
     (let diff = safeAdd coins (negative coinsB) in (diff, IsAnyNegative diff))"

definition DecCoins_IsZero :: "DecCoins \<Rightarrow> bool" where
  "DecCoins_IsZero coins = list_all (\<lambda>c. Amount c = 0) coins"

text \<open>\<open>sort.Sort\<close> on \<open>DecCoins\<close>, whose \<open>Less\<close> compares the denoms.\<close>

definition sortCoins :: "DecCoins \<Rightarrow> DecCoins" where
  "sortCoins coins = sort_key Denom coins"

text \<open>
  The total amount of a denom in a coin list (zero when absent; a valid list has at
  most one coin per denom), and the validity of a coin list: denoms strictly ascending
  and every amount positive.
\<close>

definition AmountOf :: "DecCoins \<Rightarrow> string \<Rightarrow> int" where
  "AmountOf coins d = sum_list (map Amount (filter (\<lambda>c. Denom c = d) coins))"

definition validCoins :: "DecCoins \<Rightarrow> bool" where
  "validCoins coins = (sorted_wrt (<) (map Denom coins) \<and> list_all (\<lambda>c. 0 < Amount c) coins)"

section \<open>Lock ledger (token keeper)\<close>

text \<open>
  Every operation returns the error (\<open>None\<close> for Go's \<open>nil\<close>) together with the state
  it leaves behind, so that what a failing call has already written stays visible.
\<close>

definition storeLockCoins :: "'b State \<Rightarrow> AccAddress \<Rightarrow> DecCoins \<Rightarrow> 'b State" where
  "storeLockCoins s addr newCoins =
     (let sortedCoins = sortCoins newCoins
      in if length sortedCoins > 0
         then s\<lparr>lockStore := (lockStore s)(addr \<mapsto> sortedCoins)\<rparr>
         else s\<lparr>lockStore := (lockStore s)(addr := None)\<rparr>)"

definition updateLockCoins ::
  "'b State \<Rightarrow> AccAddress \<Rightarrow> DecCoins \<Rightarrow> bool \<Rightarrow> error option \<times> 'b State" where
  "updateLockCoins s addr coins isAdd =
     (if isAdd then
        (case lockStore s addr of
           None \<Rightarrow> (None, storeLockCoins s addr coins)
         | Some oldCoins \<Rightarrow> (None, storeLockCoins s addr (DecCoins_Add oldCoins coins)))
      else
        (case lockStore s addr of
           None \<Rightarrow> (Some ErrNothingLocked, s)
         | Some oldCoins \<Rightarrow>
             (let (newCoins, isNegative) = SafeSub oldCoins coins
              in if isNegative then (Some ErrLockedInsufficient, s)
                 else (None, storeLockCoins s addr newCoins))))"

definition LockCoins ::
  "'b Keeper \<Rightarrow> 'b State \<Rightarrow> AccAddress \<Rightarrow> DecCoins \<Rightarrow> int \<Rightarrow> error option \<times> 'b State" where
  "LockCoins k s addr coins lockCoinsType =
     (case SendCoinsFromAccountToModule k (bank s) addr (ModuleName k) coins of
        Inl err \<Rightarrow> (Some err, s)
      | Inr b \<Rightarrow>
          (if lockCoinsType = LockCoinsTypeQuantity k
           then updateLockCoins (s\<lparr>bank := b\<rparr>) addr coins True
           else (None, s\<lparr>bank := b\<rparr>)))"

definition UnlockCoins ::
  "'b Keeper \<Rightarrow> 'b State \<Rightarrow> AccAddress \<Rightarrow> DecCoins \<Rightarrow> int \<Rightarrow> error option \<times> 'b State" where
  "UnlockCoins k s addr coins lockCoinsType =
     (let (err, s1) =
            (if lockCoinsType = LockCoinsTypeQuantity k
             then updateLockCoins s addr coins False
             else (None, s))
      in if err \<noteq> None then (err, s1)
         else
           (case SendCoinsFromModuleToAccount k (bank s1) (ModuleName k) addr coins of
              Inl err2 \<Rightarrow> (Some err2, s1)
            | Inr b \<Rightarrow> (None, s1\<lparr>bank := b\<rparr>)))"

definition GetLockCoins :: "'b State \<Rightarrow> AccAddress \<Rightarrow> DecCoins" where
  "GetLockCoins s addr = (case lockStore s addr of None \<Rightarrow> [] | Some coins \<Rightarrow> coins)"

definition BalanceAccount ::
  "'b Keeper \<Rightarrow> 'b State \<Rightarrow> AccAddress \<Rightarrow> DecCoins \<Rightarrow> DecCoins \<Rightarrow> error option \<times> 'b State" where
  "BalanceAccount k s addr outputCoins inputCoins =
     (let (err, s1) =
            (if \<not> DecCoins_IsZero outputCoins
             then updateLockCoins s addr outputCoins False
             else (None, s))
      in if err \<noteq> None then (err, s1)
         else if \<not> DecCoins_IsZero inputCoins then
           (case SendCoinsFromModuleToAccount k (bank s1) (ModuleName k) addr inputCoins of
              Inl err2 \<Rightarrow> (Some err2, s1)
            | Inr b \<Rightarrow> (None, s1\<lparr>bank := b\<rparr>))
         else (err, s1))"

section \<open>Token-pair registry (dex keeper)\<close>

text \<open>
  The keeper holds pointers to token pairs: \<open>SaveTokenPair\<close> writes the new ID through
  its argument and the cache keeps the pointer it is given. Here a pair is a value:
  \<open>SaveTokenPair\<close> returns the pair as the caller sees it afterwards, and the cache
  holds the value a pointer designates. Each function below that writes a field
  through a pointer taken from the cache hands the same pointer to \<open>AddTokenPair\<close>
  before anything reads the cache again, so the cached value and the pointee agree
  wherever they are read.
\<close>

definition keyPair :: "TokenPair \<Rightarrow> string" where
  "keyPair tokenPair = BaseAssetSymbol tokenPair @ ''_'' @ QuoteAssetSymbol tokenPair"

text \<open>
  Modelled from the spec: the methods of \<open>Cache\<close>, which are not part of the sources.
  A save ``adds to the new list, refreshes the full map''; the flag is true iff the
  cache recorded an addition; the full map is keyed by the pair's own \<open>"base_quote"\<close>.
\<close>

definition Cache_AddTokenPair :: "Cache \<Rightarrow> TokenPair \<Rightarrow> Cache" where
  "Cache_AddTokenPair c tokenPair =
     c\<lparr>tokenPairMap := AList.update (keyPair tokenPair) tokenPair (tokenPairMap c)\<rparr>"

definition Cache_AddNewTokenPair :: "Cache \<Rightarrow> TokenPair \<Rightarrow> Cache" where
  "Cache_AddNewTokenPair c tokenPair =
     c\<lparr>newTokenPairMap := newTokenPairMap c @ [tokenPair], tokenPairChanged := True\<rparr>"

definition Cache_GetTokenPair :: "Cache \<Rightarrow> string \<Rightarrow> TokenPair option" where
  "Cache_GetTokenPair c product = map_of (tokenPairMap c) product"


definition GetTokenPairNum :: "'b State \<Rightarrow> 64 word" where
  "GetTokenPairNum s = (case tokenPairNumber s of None \<Rightarrow> 0 | Some n \<Rightarrow> n)"

definition SaveTokenPair :: "'b State \<Rightarrow> TokenPair \<Rightarrow> error option \<times> TokenPair \<times> 'b State" where
  "SaveTokenPair s tokenPair =
     (let tokenPair1 = (if ID tokenPair = 0
                        then tokenPair\<lparr>ID := GetTokenPairNum s + 1\<rparr>
                        else tokenPair);
          tokenPairNumber1 = ID tokenPair1;
          kp = keyPair tokenPair1
      in (None, tokenPair1,
          s\<lparr>tokenPairNumber := Some tokenPairNumber1,
            tokenPairStore := AList.update kp tokenPair1 (tokenPairStore s),
            userTokenPairStore := insert (Owner tokenPair1, kp) (userTokenPairStore s),
            cache := Cache_AddTokenPair (Cache_AddNewTokenPair (cache s) tokenPair1) tokenPair1\<rparr>))"

text \<open>
  \<open>GetTokenPair\<close> returns \<open>nil\<close> also when the stored bytes do not decode; the store
  holds decoded values, so that branch has no counterpart here.
\<close>

definition GetTokenPair :: "'b State \<Rightarrow> string \<Rightarrow> TokenPair option \<times> 'b State" where
  "GetTokenPair s product =
     (case Cache_GetTokenPair (cache s) product of
        Some tokenPair \<Rightarrow> (Some tokenPair, s)
      | None \<Rightarrow>
          (case map_of (tokenPairStore s) product of
             None \<Rightarrow> (None, s)
           | Some tokenPair \<Rightarrow>
               (Some tokenPair, s\<lparr>cache := Cache_AddTokenPair (cache s) tokenPair\<rparr>)))"



definition UpdateUserTokenPair ::
  "'b State \<Rightarrow> string \<Rightarrow> AccAddress \<Rightarrow> AccAddress \<Rightarrow> 'b State" where
  "UpdateUserTokenPair s product owner to =
     s\<lparr>userTokenPairStore := insert (to, product) (userTokenPairStore s - {(owner, product)})\<rparr>"

definition UpdateTokenPair :: "'b State \<Rightarrow> string \<Rightarrow> TokenPair \<Rightarrow> 'b State" where
  "UpdateTokenPair s product tokenPair =
     s\<lparr>tokenPairStore := AList.update product tokenPair (tokenPairStore s),
       cache := Cache_AddTokenPair (cache s) tokenPair\<rparr>"

text \<open>
  Modelled from the spec: \<open>types.TokenPairs\<close> and its \<open>Less\<close> are not part of the
  sources. The spec gives the order: byte-wise comparison of the concatenated
  \<open>"base_quote"\<close> key, ascending. \<open>sort.Sort\<close> is an insertion sort driven by \<open>Less\<close>;
  on pairs with different keys every sorting algorithm returns the same list.
\<close>

definition TokenPairs_Less :: "TokenPair \<Rightarrow> TokenPair \<Rightarrow> bool" where
  "TokenPairs_Less a b = (keyPair a < keyPair b)"

fun insertTokenPair :: "TokenPair \<Rightarrow> TokenPair list \<Rightarrow> TokenPair list" where
  "insertTokenPair x [] = [x]"
| "insertTokenPair x (y # ys) =
     (if TokenPairs_Less y x then y # insertTokenPair x ys else x # y # ys)"

definition sortTokenPairs :: "TokenPair list \<Rightarrow> TokenPair list" where
  "sortTokenPairs tokenPairs = foldr insertTokenPair tokenPairs []"




section \<open>Withdrawal queue (dex keeper)\<close>

text \<open>
  \<open>DecCoin\<close> arithmetic of the SDK: \<open>Add\<close>, \<open>Sub\<close> and \<open>IsLT\<close> panic when the two
  denoms differ (\<open>None\<close>).
\<close>

definition DecCoin_Add :: "DecCoin \<Rightarrow> DecCoin \<Rightarrow> DecCoin option" where
  "DecCoin_Add coin coinB =
     (if Denom coin \<noteq> Denom coinB then None
      else Some (coin\<lparr>Amount := Amount coin + Amount coinB\<rparr>))"

definition DecCoin_Sub :: "DecCoin \<Rightarrow> DecCoin \<Rightarrow> DecCoin option" where
  "DecCoin_Sub coin coinB =
     (if Denom coin \<noteq> Denom coinB then None
      else Some (coin\<lparr>Amount := Amount coin - Amount coinB\<rparr>))"

definition DecCoin_IsLT :: "DecCoin \<Rightarrow> DecCoin \<Rightarrow> bool option" where
  "DecCoin_IsLT coin other =
     (if Denom coin \<noteq> Denom other then None else Some (Amount coin < Amount other))"

definition DecCoin_IsPositive :: "DecCoin \<Rightarrow> bool" where
  "DecCoin_IsPositive coin = (0 < Amount coin)"

definition ToCoins :: "DecCoin \<Rightarrow> DecCoins" where
  "ToCoins coin = [coin]"

definition GetWithdrawInfo :: "'b State \<Rightarrow> AccAddress \<Rightarrow> WithdrawInfo option" where
  "GetWithdrawInfo s addr = withdrawInfoStore s addr"

definition SetWithdrawInfo :: "'b State \<Rightarrow> WithdrawInfo \<Rightarrow> 'b State" where
  "SetWithdrawInfo s withdrawInfo =
     s\<lparr>withdrawInfoStore := (withdrawInfoStore s)(wOwner withdrawInfo \<mapsto> withdrawInfo)\<rparr>"

definition deleteWithdrawInfo :: "'b State \<Rightarrow> AccAddress \<Rightarrow> 'b State" where
  "deleteWithdrawInfo s addr = s\<lparr>withdrawInfoStore := (withdrawInfoStore s)(addr := None)\<rparr>"

definition SetWithdrawCompleteTimeAddress :: "'b State \<Rightarrow> int \<Rightarrow> AccAddress \<Rightarrow> 'b State" where
  "SetWithdrawCompleteTimeAddress s completeTime addr =
     s\<lparr>withdrawTimeStore := insert (completeTime, addr) (withdrawTimeStore s)\<rparr>"

definition DeleteWithdrawCompleteTimeAddress :: "'b State \<Rightarrow> int \<Rightarrow> AccAddress \<Rightarrow> 'b State" where
  "DeleteWithdrawCompleteTimeAddress s timestamp delAddr =
     s\<lparr>withdrawTimeStore := withdrawTimeStore s - {(timestamp, delAddr)}\<rparr>"

text \<open>
  Modelled from the spec: the key builders \<open>GetWithdrawTimeKey\<close> and
  \<open>GetWithdrawTimeAddressKey\<close> are not part of the sources. The spec gives the key as
  the prefix, the big-endian completion time and the owner, ordered so that the range
  from the bare prefix to the prefix end of \<open>endTime\<close> holds exactly the entries whose
  completion time is at most \<open>endTime\<close>. The iterator is the set of keys it ranges over.
\<close>

definition withdrawTimeKeyIterator :: "'b State \<Rightarrow> int \<Rightarrow> (int \<times> AccAddress) set" where
  "withdrawTimeKeyIterator s endTime = Set.filter (\<lambda>key. fst key \<le> endTime) (withdrawTimeStore s)"

definition Withdraw ::
  "'b Keeper \<Rightarrow> 'b State \<Rightarrow> string \<Rightarrow> AccAddress \<Rightarrow> DecCoin \<Rightarrow> error option \<times> 'b State" where
  "Withdraw k s product to amount =
     (case GetTokenPair s product of
        (None, s0) \<Rightarrow> (Some ErrUnknownRequest, s0)
      | (Some tokenPair, s0) \<Rightarrow>
          if Owner tokenPair \<noteq> to then (Some ErrInvalidAddress, s0)
          else if Denom amount \<noteq> DefaultBondDenom k then (Some ErrUnknownRequest, s0)
          else
            (case DecCoin_IsLT (Deposits tokenPair) amount of
               None \<Rightarrow> (Some Panic, s0)
             | Some True \<Rightarrow> (Some ErrInsufficientCoins, s0)
             | Some False \<Rightarrow>
                 (let completeTime = blockTime s0 + WithdrawPeriod s0;
                      merged =
                        (case GetWithdrawInfo s0 to of
                           None \<Rightarrow>
                             Inr (\<lparr>wOwner = to, wDeposits = amount, CompleteTime = completeTime\<rparr>, s0)
                         | Some withdrawInfo \<Rightarrow>
                             (let s1 = DeleteWithdrawCompleteTimeAddress s0
                                         (CompleteTime withdrawInfo) to
                              in case DecCoin_Add (wDeposits withdrawInfo) amount of
                                   None \<Rightarrow> Inl s1
                                 | Some newDeposits \<Rightarrow>
                                     Inr (withdrawInfo\<lparr>wDeposits := newDeposits,
                                                        CompleteTime := completeTime\<rparr>, s1)))
                  in case merged of
                       Inl s1 \<Rightarrow> (Some Panic, s1)
                     | Inr (withdrawInfo, s1) \<Rightarrow>
                         (let s2 = SetWithdrawCompleteTimeAddress
                                     (SetWithdrawInfo s1 withdrawInfo) completeTime to
                          in case DecCoin_Sub (Deposits tokenPair) amount of
                               None \<Rightarrow> (Some Panic, s2)
                             | Some rest \<Rightarrow>
                                 (None, UpdateTokenPair s2 product
                                          (tokenPair\<lparr>Deposits := rest\<rparr>))))))"

text \<open>
  \<open>TransferOwnership\<close> wraps an error of \<open>Withdraw\<close> into \<open>ErrInternal\<close>; a panic is not
  an error value and passes through.
\<close>

definition TransferOwnership ::
  "'b Keeper \<Rightarrow> 'b State \<Rightarrow> string \<Rightarrow> AccAddress \<Rightarrow> AccAddress \<Rightarrow> error option \<times> 'b State" where
  "TransferOwnership k s product from to =
     (case GetTokenPair s product of
        (None, s0) \<Rightarrow> (Some ErrUnknownRequest, s0)
      | (Some tokenPair, s0) \<Rightarrow>
          if Owner tokenPair \<noteq> from then (Some ErrUnauthorized, s0)
          else
            (let (err, s1) =
                   (if DecCoin_IsPositive (Deposits tokenPair)
                    then Withdraw k s0 product from (Deposits tokenPair)
                    else (None, s0))
             in if err = Some Panic then (Some Panic, s1)
                else if err \<noteq> None then (Some ErrInternal, s1)
                else
                  (let tokenPair1 = tokenPair\<lparr>Owner := to,
                                              Deposits := DefaultTokenPairDeposit k\<rparr>
                   in (None, UpdateUserTokenPair
                               (UpdateTokenPair s1 product tokenPair1) product from to))))"

definition CompleteWithdraw ::
  "'b Keeper \<Rightarrow> 'b State \<Rightarrow> AccAddress \<Rightarrow> error option \<times> 'b State" where
  "CompleteWithdraw k s addr =
     (case GetWithdrawInfo s addr of
        None \<Rightarrow> (Some ErrInvalidAddress, s)
      | Some withdrawInfo \<Rightarrow>
          (let withdrawCoins = ToCoins (wDeposits withdrawInfo)
           in case SendCoinsFromModuleToAccount k (bank s) (ModuleName k)
                     (wOwner withdrawInfo) withdrawCoins of
                Inl err \<Rightarrow> (Some ErrInsufficientCoins, s)
              | Inr b \<Rightarrow> (None, deleteWithdrawInfo (s\<lparr>bank := b\<rparr>) addr)))"

section \<open>Invariants and a reference instance\<close>

text \<open>
  The invariant of the locked ledger: a stored set is never empty, its denoms are
  strictly ascending and every amount is positive.
\<close>

definition sortedDenoms :: "DecCoins \<Rightarrow> bool" where
  "sortedDenoms coins = sorted_wrt (<) (map Denom coins)"

definition lockInv :: "'b State \<Rightarrow> bool" where
  "lockInv s = (\<forall>addr coins. lockStore s addr = Some coins \<longrightarrow> coins \<noteq> [] \<and> validCoins coins)"

text \<open>
  The same invariant without the condition on repeated denoms: a stored set is never
  empty, it is sorted by denom, and every amount is positive.
\<close>

definition positiveCoins :: "DecCoins \<Rightarrow> bool" where
  "positiveCoins coins = list_all (\<lambda>c. 0 < Amount c) coins"

definition ledgerInv :: "'b State \<Rightarrow> bool" where
  "ledgerInv s =
     (\<forall>addr coins. lockStore s addr = Some coins \<longrightarrow>
        coins \<noteq> [] \<and> sorted (map Denom coins) \<and> positiveCoins coins)"



text \<open>
  A small bank, to run the keepers on concrete inputs: every account and every module
  holds a coin list, and a transfer fails when the sender would go negative.
\<close>

record Bank =
  accounts :: "AccAddress \<Rightarrow> DecCoins"
  modules :: "string \<Rightarrow> DecCoins"

definition refSendCoinsFromAccountToModule ::
  "Bank \<Rightarrow> AccAddress \<Rightarrow> string \<Rightarrow> DecCoins \<Rightarrow> error + Bank" where
  "refSendCoinsFromAccountToModule b addr m coins =
     (let (rest, isNegative) = SafeSub (accounts b addr) coins
      in if isNegative then Inl ErrSupply
         else Inr (b\<lparr>accounts := (accounts b)(addr := rest),
                     modules := (modules b)(m := DecCoins_Add (modules b m) coins)\<rparr>))"

definition refSendCoinsFromModuleToAccount ::
  "Bank \<Rightarrow> string \<Rightarrow> AccAddress \<Rightarrow> DecCoins \<Rightarrow> error + Bank" where
  "refSendCoinsFromModuleToAccount b m addr coins =
     (let (rest, isNegative) = SafeSub (modules b m) coins
      in if isNegative then Inl ErrSupply
         else Inr (b\<lparr>accounts := (accounts b)(addr := DecCoins_Add (accounts b addr) coins),
                     modules := (modules b)(m := rest)\<rparr>))"

definition refKeeper :: "Bank Keeper" where
  "refKeeper =
     \<lparr>SendCoinsFromAccountToModule = refSendCoinsFromAccountToModule,
      SendCoinsFromModuleToAccount = refSendCoinsFromModuleToAccount,
      ModuleName = ''dex'',
      DefaultBondDenom = ''okt'',
      DefaultTokenPairDeposit = \<lparr>Denom = ''okt'', Amount = 10\<rparr>,
      LockCoinsTypeQuantity = 1\<rparr>"

text \<open>A keeper whose transfers always succeed and leave the bank as it is.\<close>

definition openKeeper :: "Bank Keeper" where
  "openKeeper =
     refKeeper\<lparr>SendCoinsFromAccountToModule := (\<lambda>b addr m coins. Inr b),
               SendCoinsFromModuleToAccount := (\<lambda>b m addr coins. Inr b)\<rparr>"

definition coin :: "string \<Rightarrow> int \<Rightarrow> DecCoin" where
  "coin d a = \<lparr>Denom = d, Amount = a\<rparr>"

definition btc_usdt :: TokenPair where
  "btc_usdt = \<lparr>BaseAssetSymbol = ''btc'', QuoteAssetSymbol = ''usdt'', ID = 1, Delisting = False,
               Owner = ''A'', Deposits = coin ''okt'' 100\<rparr>"

definition exampleState :: "Bank State" where
  "exampleState =
     \<lparr>bank = \<lparr>accounts = (\<lambda>_. [coin ''btc'' 3]), modules = (\<lambda>_. [coin ''okt'' 1000])\<rparr>,
      lockStore = [''A'' \<mapsto> [coin ''btc'' 5]],
      tokenPairStore = [(''btc_usdt'', btc_usdt)],
      userTokenPairStore = {(''A'', ''btc_usdt'')},
      tokenPairNumber = Some 1,
      withdrawInfoStore = Map.empty,
      withdrawTimeStore = {},
      cache = \<lparr>tokenPairMap = [], newTokenPairMap = [], tokenPairChanged = False\<rparr>,
      blockTime = 1000,
      WithdrawPeriod = 500\<rparr>"

text \<open>
  The record \<open>Withdraw\<close> writes for an owner: a fresh one when nothing is pending,
  otherwise the pending one with the amount added and the completion time replaced.
\<close>

definition mergedWithdrawInfo :: "'b State \<Rightarrow> AccAddress \<Rightarrow> DecCoin \<Rightarrow> WithdrawInfo" where
  "mergedWithdrawInfo s to amount =
     (case withdrawInfoStore s to of
        None \<Rightarrow> \<lparr>wOwner = to, wDeposits = amount, CompleteTime = blockTime s + WithdrawPeriod s\<rparr>
      | Some w \<Rightarrow> w\<lparr>wDeposits := (wDeposits w)\<lparr>Amount := Amount (wDeposits w) + Amount amount\<rparr>,
                    CompleteTime := blockTime s + WithdrawPeriod s\<rparr>)"


text \<open>Further concrete states: a pending withdrawal, an empty store, three listed pairs.\<close>

definition pendingState :: "Bank State" where
  "pendingState =
     exampleState\<lparr>withdrawInfoStore :=
                    [''A'' \<mapsto> \<lparr>wOwner = ''A'', wDeposits = coin ''okt'' 40, CompleteTime = 1500\<rparr>],
                  withdrawTimeStore := {(1500, ''A'')}\<rparr>"

definition emptyBank :: Bank where
  "emptyBank = \<lparr>accounts = (\<lambda>_. []), modules = (\<lambda>_. [])\<rparr>"

definition emptyState :: "Bank State" where
  "emptyState =
     \<lparr>bank = emptyBank,
      lockStore = Map.empty,
      tokenPairStore = [],
      userTokenPairStore = {},
      tokenPairNumber = None,
      withdrawInfoStore = Map.empty,
      withdrawTimeStore = {},
      cache = \<lparr>tokenPairMap = [], newTokenPairMap = [], tokenPairChanged = False\<rparr>,
      blockTime = 1000,
      WithdrawPeriod = 500\<rparr>"

definition newPair :: "string \<Rightarrow> string \<Rightarrow> TokenPair" where
  "newPair base quote =
     \<lparr>BaseAssetSymbol = base, QuoteAssetSymbol = quote, ID = 0, Delisting = False,
      Owner = ''A'', Deposits = coin ''okt'' 0\<rparr>"

definition laterState :: "Bank State" where
  "laterState = pendingState\<lparr>blockTime := 1200\<rparr>"

definition afterFirstWithdraw :: "Bank State" where
  "afterFirstWithdraw = snd (Withdraw refKeeper exampleState ''btc_usdt'' ''A'' (coin ''okt'' 40))"






section \<open>Properties of the coin arithmetic\<close>

lemma AmountOf_Nil [simp]: "AmountOf [] d = 0"
  by (simp add: AmountOf_def)

lemma AmountOf_Cons:
  "AmountOf (c # cs) d = (if Denom c = d then Amount c else 0) + AmountOf cs d"
  by (simp add: AmountOf_def)

lemma AmountOf_append: "AmountOf (xs @ ys) d = AmountOf xs d + AmountOf ys d"
  by (simp add: AmountOf_def)

lemma AmountOf_removeZero: "AmountOf (removeZeroDecCoins cs) d = AmountOf cs d"
  by (induction cs) (auto simp: removeZeroDecCoins_def AmountOf_def DecCoin_IsZero_def)

text \<open>The merge adds amounts denom by denom, whatever the order of the two lists.\<close>

lemma AmountOf_safeAdd: "AmountOf (safeAdd a b) d = AmountOf a d + AmountOf b d"
proof (induction a b rule: safeAdd.induct)
  case 1
  then show ?case by simp
next
  case (2 b bs)
  then show ?case by (simp add: AmountOf_removeZero)
next
  case (3 a as)
  then show ?case by (simp add: AmountOf_removeZero)
next
  case (4 a as b bs)
  then show ?case
    by (auto simp: AmountOf_append AmountOf_Cons DecCoin_IsZero_def Let_def)
qed

lemma AmountOf_negative: "AmountOf (negative cs) d = - AmountOf cs d"
  by (induction cs) (auto simp: negative_def AmountOf_def)

lemma AmountOf_neg_IsAnyNegative: "AmountOf cs d < 0 \<Longrightarrow> IsAnyNegative cs"
proof (induction cs)
  case Nil
  then show ?case by simp
next
  case (Cons c cs)
  then show ?case
    by (cases "Amount c < 0") (auto simp: AmountOf_Cons IsAnyNegative_def split: if_splits)
qed

lemma safeAdd_nonzero: "c \<in> set (safeAdd a b) \<Longrightarrow> Amount c \<noteq> 0"
  by (induction a b rule: safeAdd.induct)
     (auto simp: removeZeroDecCoins_def DecCoin_IsZero_def Let_def split: if_splits)

lemma safeAdd_denoms:
  "c \<in> set (safeAdd a b) \<Longrightarrow> Denom c \<in> Denom ` set a \<union> Denom ` set b"
  by (induction a b rule: safeAdd.induct)
     (auto simp: removeZeroDecCoins_def Let_def split: if_splits)

lemma sorted_removeZero:
  "sorted_wrt (<) (map Denom cs) \<Longrightarrow> sorted_wrt (<) (map Denom (removeZeroDecCoins cs))"
  by (induction cs) (auto simp: removeZeroDecCoins_def)

lemma safeAdd_sorted:
  "sorted_wrt (<) (map Denom a) \<Longrightarrow> sorted_wrt (<) (map Denom b)
   \<Longrightarrow> sorted_wrt (<) (map Denom (safeAdd a b))"
proof (induction a b rule: safeAdd.induct)
  case 1
  then show ?case by simp
next
  case (2 b bs)
  then show ?case using sorted_removeZero[of "b # bs"] by simp
next
  case (3 a as)
  then show ?case using sorted_removeZero[of "a # as"] by simp
next
  case (4 a as b bs)
  show ?case
  proof (cases "Denom a < Denom b")
    case True
    have "\<forall>c \<in> set (safeAdd as (b # bs)). Denom a < Denom c"
      using 4(4,5) True safeAdd_denoms[of _ as "b # bs"] by fastforce
    moreover have "sorted_wrt (<) (map Denom (safeAdd as (b # bs)))"
      using 4(1)[OF True] 4(4,5) by simp
    ultimately show ?thesis using True by (simp add: sorted_wrt_append)
  next
    case False
    note nlt = False
    show ?thesis
    proof (cases "Denom a = Denom b")
      case True
      have "\<forall>c \<in> set (safeAdd as bs). Denom a < Denom c"
        using 4(4,5) True safeAdd_denoms[of _ as bs] by fastforce
      moreover have "sorted_wrt (<) (map Denom (safeAdd as bs))"
        using 4(2)[OF nlt True refl] 4(4,5) by simp
      ultimately show ?thesis using True by (simp add: sorted_wrt_append Let_def)
    next
      case False
      then have lt: "Denom b < Denom a" using nlt by auto
      have "\<forall>c \<in> set (safeAdd (a # as) bs). Denom b < Denom c"
        using 4(4,5) lt safeAdd_denoms[of _ "a # as" bs] by fastforce
      moreover have "sorted_wrt (<) (map Denom (safeAdd (a # as) bs))"
        using 4(3)[OF nlt False] 4(4,5) by simp
      ultimately show ?thesis using False nlt by (simp add: sorted_wrt_append)
    qed
  qed
qed

lemma negative_denoms [simp]: "map Denom (negative cs) = map Denom cs"
  by (simp add: negative_def)

lemma safeAdd_positive:
  "list_all (\<lambda>c. 0 < Amount c) a \<Longrightarrow> list_all (\<lambda>c. 0 < Amount c) b
   \<Longrightarrow> list_all (\<lambda>c. 0 < Amount c) (safeAdd a b)"
  by (induction a b rule: safeAdd.induct)
     (auto simp: removeZeroDecCoins_def DecCoin_IsZero_def Let_def list_all_iff)

lemma sortCoins_sorted:
  "sorted_wrt (<) (map Denom cs) \<Longrightarrow> sortCoins cs = cs"
  unfolding sortCoins_def
  by (rule sort_key_id_if_sorted) (simp add: strict_sorted_imp_sorted)

lemma SafeSub_exceeds:
  assumes "AmountOf old d < AmountOf coins d"
  shows "snd (SafeSub old coins)"
proof -
  have "AmountOf (safeAdd old (negative coins)) d < 0"
    using assms by (simp add: AmountOf_safeAdd AmountOf_negative)
  then show ?thesis
    by (simp add: SafeSub_def Let_def AmountOf_neg_IsAnyNegative)
qed

lemma valid_Add: "validCoins a \<Longrightarrow> validCoins b \<Longrightarrow> validCoins (DecCoins_Add a b)"
  by (simp add: validCoins_def DecCoins_Add_def safeAdd_sorted safeAdd_positive)

lemma valid_SafeSub:
  assumes "validCoins a" and "sortedDenoms b" and "\<not> snd (SafeSub a b)"
  shows "validCoins (fst (SafeSub a b))"
proof -
  let ?r = "safeAdd a (negative b)"
  have s: "sorted_wrt (<) (map Denom ?r)"
    using assms(1,2) by (simp add: validCoins_def sortedDenoms_def safeAdd_sorted)
  have "\<forall>c \<in> set ?r. 0 < Amount c"
  proof
    fix c assume c: "c \<in> set ?r"
    then have "Amount c \<noteq> 0" by (rule safeAdd_nonzero)
    moreover have "\<not> Amount c < 0"
      using assms(3) c by (auto simp: SafeSub_def Let_def IsAnyNegative_def list_ex_iff)
    ultimately show "0 < Amount c" by simp
  qed
  then show ?thesis using s by (simp add: validCoins_def SafeSub_def Let_def list_all_iff)
qed

section \<open>Properties of the lock ledger\<close>

lemma updateLockCoins_sub_exceeds:
  assumes "AmountOf (GetLockCoins s addr) d < AmountOf coins d"
  shows "updateLockCoins s addr coins False =
           (Some (if lockStore s addr = None then ErrNothingLocked else ErrLockedInsufficient), s)"
proof (cases "lockStore s addr")
  case None
  then show ?thesis by (simp add: updateLockCoins_def)
next
  case (Some old)
  then have "snd (SafeSub old coins)"
    using assms SafeSub_exceeds[of old d coins] by (simp add: GetLockCoins_def)
  then show ?thesis using Some
    by (auto simp: updateLockCoins_def split: prod.splits)
qed

text \<open>A failed debit of the locked set writes nothing.\<close>

lemma updateLockCoins_sub_fail:
  "fst (updateLockCoins s addr coins False) = Some e \<Longrightarrow> snd (updateLockCoins s addr coins False) = s"
  by (auto simp: updateLockCoins_def split: option.splits prod.splits if_splits)

lemma updateLockCoins_bank [simp]:
  "bank (snd (updateLockCoins s addr coins isAdd)) = bank s"
  by (auto simp: updateLockCoins_def storeLockCoins_def Let_def split: option.splits prod.splits)

lemma storeLockCoins_inv:
  assumes "lockInv s" and "validCoins cs"
  shows "lockInv (storeLockCoins s addr cs)"
proof -
  have "sortCoins cs = cs" using assms(2) by (simp add: validCoins_def sortCoins_sorted)
  then show ?thesis using assms
    by (auto simp: storeLockCoins_def lockInv_def)
qed

lemma updateLockCoins_add_inv:
  assumes "lockInv s" and "validCoins coins"
  shows "lockInv (snd (updateLockCoins s addr coins True))"
proof (cases "lockStore s addr")
  case None
  then show ?thesis using assms by (simp add: updateLockCoins_def storeLockCoins_inv)
next
  case (Some old)
  then have "validCoins old" using assms(1) by (simp add: lockInv_def)
  then show ?thesis using Some assms
    by (simp add: updateLockCoins_def storeLockCoins_inv valid_Add)
qed

lemma updateLockCoins_sub_inv:
  assumes "lockInv s" and "sortedDenoms coins"
  shows "lockInv (snd (updateLockCoins s addr coins False))"
proof (cases "lockStore s addr")
  case None
  then show ?thesis using assms by (simp add: updateLockCoins_def)
next
  case (Some old)
  then have v: "validCoins old" using assms(1) by (simp add: lockInv_def)
  show ?thesis
  proof (cases "snd (SafeSub old coins)")
    case True
    then show ?thesis using Some assms(1)
      by (auto simp: updateLockCoins_def split: prod.splits)
  next
    case False
    then have "validCoins (fst (SafeSub old coins))"
      using v assms(2) by (simp add: valid_SafeSub)
    then show ?thesis using Some False assms(1)
      by (auto simp: updateLockCoins_def storeLockCoins_inv split: prod.splits)
  qed
qed

lemma lockInv_bank [simp]: "lockInv (s\<lparr>bank := b\<rparr>) = lockInv s"
  by (simp add: lockInv_def)

lemma lockInv_exampleState: "lockInv exampleState"
  by (simp add: lockInv_def exampleState_def validCoins_def coin_def)

text \<open>
  C3. An unlock with quantity tracking that asks, in some denom, for more than the
  address has locked (also when the address has no locked record at all) returns an
  error and the state it was given: the locked ledger and the bank are unchanged. The
  error is ``coins locked <0>'' when there is no record and ``coins available'' otherwise.
\<close>

theorem UnlockCoins_overdraft_no_effect:
  assumes "lockCoinsType = LockCoinsTypeQuantity k"
    and "\<exists>d. AmountOf (GetLockCoins s addr) d < AmountOf coins d"
  shows "UnlockCoins k s addr coins lockCoinsType =
           (Some (if lockStore s addr = None then ErrNothingLocked else ErrLockedInsufficient), s)"
proof -
  from assms(2) obtain d where "AmountOf (GetLockCoins s addr) d < AmountOf coins d" ..
  then show ?thesis
    using assms(1) by (simp add: UnlockCoins_def updateLockCoins_sub_exceeds)
qed

theorem UnlockCoins_overdraft_no_effect_witness:
  "(1::int) = LockCoinsTypeQuantity refKeeper
   \<and> (\<exists>d. AmountOf (GetLockCoins exampleState ''A'') d < AmountOf [coin ''btc'' 9] d)
   \<and> UnlockCoins refKeeper exampleState ''A'' [coin ''btc'' 9] 1
       = (Some ErrLockedInsufficient, exampleState)"
proof -
  have h: "\<exists>d. AmountOf (GetLockCoins exampleState ''A'') d < AmountOf [coin ''btc'' 9] d"
    by (rule exI[of _ "''btc''"])
       (simp add: GetLockCoins_def exampleState_def AmountOf_def coin_def)
  have q: "(1::int) = LockCoinsTypeQuantity refKeeper" by (simp add: refKeeper_def)
  have "lockStore exampleState ''A'' \<noteq> None" by (simp add: exampleState_def)
  then show ?thesis using h q UnlockCoins_overdraft_no_effect[OF q h] by simp
qed

text \<open>
  C7. In \<open>BalanceAccount\<close> with a non-zero \<open>outputCoins\<close> the debit of the locked set
  comes first. If it fails, the call returns its error and the state it was given: no
  locked set is written and no transfer is made. If it succeeds, the credit is the
  transfer of \<open>inputCoins\<close> from the module to the address, made on the state the debit
  left behind.
\<close>

theorem BalanceAccount_debit_before_credit:
  assumes "\<not> DecCoins_IsZero outputCoins"
  shows "(\<forall>e. fst (updateLockCoins s addr outputCoins False) = Some e \<longrightarrow>
            BalanceAccount k s addr outputCoins inputCoins = (Some e, s))
       \<and> (fst (updateLockCoins s addr outputCoins False) = None \<longrightarrow>
            BalanceAccount k s addr outputCoins inputCoins =
              (let s1 = snd (updateLockCoins s addr outputCoins False)
               in if DecCoins_IsZero inputCoins then (None, s1)
                  else (case SendCoinsFromModuleToAccount k (bank s) (ModuleName k) addr inputCoins of
                          Inl err \<Rightarrow> (Some err, s1)
                        | Inr b \<Rightarrow> (None, s1\<lparr>bank := b\<rparr>))))"
proof (intro conjI allI impI)
  fix e
  assume f: "fst (updateLockCoins s addr outputCoins False) = Some e"
  then have "snd (updateLockCoins s addr outputCoins False) = s"
    by (rule updateLockCoins_sub_fail)
  with f have "updateLockCoins s addr outputCoins False = (Some e, s)"
    by (simp add: prod_eq_iff)
  then show "BalanceAccount k s addr outputCoins inputCoins = (Some e, s)"
    using assms by (simp add: BalanceAccount_def)
next
  assume ok: "fst (updateLockCoins s addr outputCoins False) = None"
  obtain s1 where u: "updateLockCoins s addr outputCoins False = (None, s1)"
    using ok by (cases "updateLockCoins s addr outputCoins False") simp
  have "bank s1 = bank s"
    using updateLockCoins_bank[of s addr outputCoins False] u by simp
  then show "BalanceAccount k s addr outputCoins inputCoins =
              (let s1 = snd (updateLockCoins s addr outputCoins False)
               in if DecCoins_IsZero inputCoins then (None, s1)
                  else (case SendCoinsFromModuleToAccount k (bank s) (ModuleName k) addr inputCoins of
                          Inl err \<Rightarrow> (Some err, s1)
                        | Inr b \<Rightarrow> (None, s1\<lparr>bank := b\<rparr>)))"
    using assms u by (simp add: BalanceAccount_def)
qed

theorem BalanceAccount_debit_before_credit_witness:
  "\<not> DecCoins_IsZero [coin ''btc'' 9]
   \<and> fst (updateLockCoins exampleState ''A'' [coin ''btc'' 9] False) = Some ErrLockedInsufficient
   \<and> BalanceAccount refKeeper exampleState ''A'' [coin ''btc'' 9] [coin ''okt'' 1]
       = (Some ErrLockedInsufficient, exampleState)
   \<and> \<not> DecCoins_IsZero [coin ''btc'' 2]
   \<and> fst (updateLockCoins exampleState ''A'' [coin ''btc'' 2] False) = None
   \<and> fst (BalanceAccount refKeeper exampleState ''A'' [coin ''btc'' 2] []) = None
   \<and> lockStore (snd (BalanceAccount refKeeper exampleState ''A'' [coin ''btc'' 2] [])) ''A''
       = Some [coin ''btc'' 3]"
proof -
  have z: "\<not> DecCoins_IsZero [coin ''btc'' 9]"
    by (simp add: DecCoins_IsZero_def coin_def)
  have f: "fst (updateLockCoins exampleState ''A'' [coin ''btc'' 9] False) = Some ErrLockedInsufficient"
    by (simp add: updateLockCoins_def exampleState_def coin_def SafeSub_def negative_def
          DecCoin_IsZero_def IsAnyNegative_def)
  have z2: "\<not> DecCoins_IsZero [coin ''btc'' 2]"
    by (simp add: DecCoins_IsZero_def coin_def)
  have u: "updateLockCoins exampleState ''A'' [coin ''btc'' 2] False
             = (None, exampleState\<lparr>lockStore := [''A'' \<mapsto> [coin ''btc'' 3]]\<rparr>)"
    by (simp add: updateLockCoins_def storeLockCoins_def exampleState_def coin_def SafeSub_def
          negative_def DecCoin_IsZero_def IsAnyNegative_def sortCoins_def Let_def)
  have e: "DecCoins_IsZero []" by (simp add: DecCoins_IsZero_def)
  have b1: "BalanceAccount refKeeper exampleState ''A'' [coin ''btc'' 9] [coin ''okt'' 1]
              = (Some ErrLockedInsufficient, exampleState)"
    using f BalanceAccount_debit_before_credit[OF z, of exampleState "''A''" refKeeper "[coin ''okt'' 1]"]
    by simp
  have b2: "BalanceAccount refKeeper exampleState ''A'' [coin ''btc'' 2] []
              = (None, exampleState\<lparr>lockStore := [''A'' \<mapsto> [coin ''btc'' 3]]\<rparr>)"
    using u e BalanceAccount_debit_before_credit[OF z2, of exampleState "''A''" refKeeper "[]"]
    by simp
  show ?thesis using z f z2 u b1 b2 by simp
qed

lemma sortCoins_props:
  "sorted (map Denom (sortCoins cs))" "set (sortCoins cs) = set cs" "(sortCoins cs = []) = (cs = [])"
proof -
  show "sorted (map Denom (sortCoins cs))" by (simp add: sortCoins_def)
  show "set (sortCoins cs) = set cs" by (simp add: sortCoins_def)
  have "length (sortCoins cs) = length cs" by (simp add: sortCoins_def)
  then show "(sortCoins cs = []) = (cs = [])" by (metis length_0_conv)
qed

lemma storeLockCoins_ledgerInv:
  assumes "ledgerInv s" and "positiveCoins cs"
  shows "ledgerInv (storeLockCoins s addr cs)"
proof -
  have p: "positiveCoins (sortCoins cs)"
    using assms(2) by (simp add: positiveCoins_def list_all_iff sortCoins_props)
  show ?thesis
    using assms(1) p sortCoins_props(1)[of cs]
    by (auto simp: storeLockCoins_def ledgerInv_def Let_def)
qed

lemma SafeSub_positive:
  assumes "\<not> snd (SafeSub a b)"
  shows "positiveCoins (fst (SafeSub a b))"
proof -
  let ?r = "safeAdd a (negative b)"
  have "\<forall>c \<in> set ?r. 0 < Amount c"
  proof
    fix c assume c: "c \<in> set ?r"
    then have "Amount c \<noteq> 0" by (rule safeAdd_nonzero)
    moreover have "\<not> Amount c < 0"
      using assms c by (auto simp: SafeSub_def Let_def IsAnyNegative_def list_ex_iff)
    ultimately show "0 < Amount c" by simp
  qed
  then show ?thesis by (simp add: positiveCoins_def SafeSub_def Let_def list_all_iff)
qed

lemma updateLockCoins_add_ledgerInv:
  assumes "ledgerInv s" and "positiveCoins coins"
  shows "ledgerInv (snd (updateLockCoins s addr coins True))"
proof (cases "lockStore s addr")
  case None
  then show ?thesis using assms by (simp add: updateLockCoins_def storeLockCoins_ledgerInv)
next
  case (Some old)
  then have "positiveCoins old" using assms(1) by (simp add: ledgerInv_def)
  then have "positiveCoins (DecCoins_Add old coins)"
    using assms(2) by (simp add: positiveCoins_def DecCoins_Add_def safeAdd_positive)
  then show ?thesis using Some assms(1)
    by (simp add: updateLockCoins_def storeLockCoins_ledgerInv)
qed

lemma updateLockCoins_sub_ledgerInv:
  assumes "ledgerInv s"
  shows "ledgerInv (snd (updateLockCoins s addr coins False))"
proof (cases "lockStore s addr")
  case None
  then show ?thesis using assms by (simp add: updateLockCoins_def)
next
  case (Some old)
  show ?thesis
  proof (cases "snd (SafeSub old coins)")
    case True
    then show ?thesis using Some assms
      by (auto simp: updateLockCoins_def split: prod.splits)
  next
    case False
    then have "positiveCoins (fst (SafeSub old coins))" by (rule SafeSub_positive)
    then show ?thesis using Some False assms
      by (auto simp: updateLockCoins_def storeLockCoins_ledgerInv split: prod.splits)
  qed
qed

lemma ledgerInv_bank [simp]: "ledgerInv (s\<lparr>bank := b\<rparr>) = ledgerInv s"
  by (simp add: ledgerInv_def)

lemma lockInv_ledgerInv: "lockInv s \<Longrightarrow> ledgerInv s"
  by (auto simp: lockInv_def ledgerInv_def validCoins_def positiveCoins_def
        strict_sorted_imp_sorted)

lemma lock_ops_lockInv:
  assumes "lockInv s"
  shows "(validCoins coins \<longrightarrow> lockInv (snd (LockCoins k s addr coins lockCoinsType)))
       \<and> (sortedDenoms coins \<longrightarrow> lockInv (snd (UnlockCoins k s addr coins lockCoinsType)))
       \<and> (sortedDenoms outputCoins \<longrightarrow>
            lockInv (snd (BalanceAccount k s addr outputCoins inputCoins)))"
proof (intro conjI impI)
  assume "validCoins coins"
  then show "lockInv (snd (LockCoins k s addr coins lockCoinsType))"
    using assms updateLockCoins_add_inv[of "s\<lparr>bank := b\<rparr>" coins addr for b]
    by (auto simp: LockCoins_def split: sum.splits)
next
  assume "sortedDenoms coins"
  then show "lockInv (snd (UnlockCoins k s addr coins lockCoinsType))"
    using assms updateLockCoins_sub_inv[of s coins addr]
    by (auto simp: UnlockCoins_def split: sum.splits prod.splits)
next
  assume "sortedDenoms outputCoins"
  then show "lockInv (snd (BalanceAccount k s addr outputCoins inputCoins))"
    using assms updateLockCoins_sub_inv[of s outputCoins addr]
    by (auto simp: BalanceAccount_def split: sum.splits prod.splits)
qed

text \<open>
  C8, as the code has it. \<open>LockCoins\<close>, \<open>UnlockCoins\<close> and \<open>BalanceAccount\<close> preserve
  the invariant of the locked ledger: for every address the stored set is non-empty
  (an emptied record is deleted), sorted by denom, and every amount is positive.
  \<open>UnlockCoins\<close> and \<open>BalanceAccount\<close> preserve it for every coin list they are given,
  \<open>LockCoins\<close> when every coin it is given has a positive amount. When the coins given
  are moreover strictly ascending in their denoms, no stored set repeats a denom.
\<close>

theorem lock_ledger_invariant:
  assumes "ledgerInv s"
  shows "(positiveCoins coins \<longrightarrow> ledgerInv (snd (LockCoins k s addr coins lockCoinsType)))
       \<and> ledgerInv (snd (UnlockCoins k s addr coins lockCoinsType))
       \<and> ledgerInv (snd (BalanceAccount k s addr outputCoins inputCoins))
       \<and> (lockInv s \<longrightarrow>
            (validCoins coins \<longrightarrow> lockInv (snd (LockCoins k s addr coins lockCoinsType)))
          \<and> (sortedDenoms coins \<longrightarrow> lockInv (snd (UnlockCoins k s addr coins lockCoinsType)))
          \<and> (sortedDenoms outputCoins \<longrightarrow>
               lockInv (snd (BalanceAccount k s addr outputCoins inputCoins))))"
proof (intro conjI impI)
  assume "positiveCoins coins"
  then show "ledgerInv (snd (LockCoins k s addr coins lockCoinsType))"
    using assms updateLockCoins_add_ledgerInv[of "s\<lparr>bank := b\<rparr>" coins addr for b]
    by (auto simp: LockCoins_def split: sum.splits)
next
  show "ledgerInv (snd (UnlockCoins k s addr coins lockCoinsType))"
    using assms updateLockCoins_sub_ledgerInv[of s addr coins]
    by (auto simp: UnlockCoins_def split: sum.splits prod.splits)
next
  show "ledgerInv (snd (BalanceAccount k s addr outputCoins inputCoins))"
    using assms updateLockCoins_sub_ledgerInv[of s addr outputCoins]
    by (auto simp: BalanceAccount_def split: sum.splits prod.splits)
next
  assume "lockInv s" and "validCoins coins"
  then show "lockInv (snd (LockCoins k s addr coins lockCoinsType))"
    using lock_ops_lockInv by blast
next
  assume "lockInv s" and "sortedDenoms coins"
  then show "lockInv (snd (UnlockCoins k s addr coins lockCoinsType))"
    using lock_ops_lockInv by blast
next
  assume "lockInv s" and "sortedDenoms outputCoins"
  then show "lockInv (snd (BalanceAccount k s addr outputCoins inputCoins))"
    using lock_ops_lockInv by blast
qed

lemmas ledger_eval = LockCoins_def UnlockCoins_def refKeeper_def openKeeper_def exampleState_def
  coin_def refSendCoinsFromAccountToModule_def refSendCoinsFromModuleToAccount_def SafeSub_def
  negative_def DecCoin_IsZero_def removeZeroDecCoins_def IsAnyNegative_def updateLockCoins_def
  storeLockCoins_def DecCoins_Add_def sortCoins_def Let_def

theorem lock_ledger_invariant_witness:
  "ledgerInv exampleState \<and> lockInv exampleState
   \<and> positiveCoins [coin ''eth'' 1, coin ''btc'' 2]
   \<and> validCoins [coin ''btc'' 2] \<and> sortedDenoms [coin ''btc'' 5]
   \<and> ledgerInv (snd (LockCoins openKeeper exampleState ''B'' [coin ''eth'' 1, coin ''btc'' 2] 1))
   \<and> lockStore (snd (LockCoins openKeeper exampleState ''B'' [coin ''eth'' 1, coin ''btc'' 2] 1)) ''B''
       = Some [coin ''btc'' 2, coin ''eth'' 1]
   \<and> ledgerInv (snd (UnlockCoins refKeeper exampleState ''A'' [coin ''btc'' (-1), coin ''btc'' (-1)] 1))
   \<and> lockStore (snd (UnlockCoins refKeeper exampleState ''A'' [coin ''btc'' (-1), coin ''btc'' (-1)] 1)) ''A''
       = Some [coin ''btc'' 6, coin ''btc'' 1]
   \<and> ledgerInv (snd (BalanceAccount refKeeper exampleState ''A'' [coin ''btc'' 5] []))
   \<and> lockInv (snd (LockCoins refKeeper exampleState ''A'' [coin ''btc'' 2] 1))
   \<and> lockInv (snd (UnlockCoins refKeeper exampleState ''A'' [coin ''btc'' 5] 1))
   \<and> lockInv (snd (BalanceAccount refKeeper exampleState ''A'' [coin ''btc'' 5] []))
   \<and> lockStore (snd (LockCoins refKeeper exampleState ''A'' [coin ''btc'' 2] 1)) ''A''
       = Some [coin ''btc'' 7]
   \<and> lockStore (snd (UnlockCoins refKeeper exampleState ''A'' [coin ''btc'' 5] 1)) ''A'' = None"
proof -
  have i: "ledgerInv exampleState" using lockInv_exampleState by (rule lockInv_ledgerInv)
  have p: "positiveCoins [coin ''eth'' 1, coin ''btc'' 2]" by (simp add: positiveCoins_def coin_def)
  have v: "validCoins [coin ''btc'' 2]" by (simp add: validCoins_def coin_def)
  have sd: "sortedDenoms [coin ''btc'' 5]" by (simp add: sortedDenoms_def)
  have l1: "lockStore (snd (LockCoins openKeeper exampleState ''B'' [coin ''eth'' 1, coin ''btc'' 2] 1)) ''B''
       = Some [coin ''btc'' 2, coin ''eth'' 1]"
    by (simp add: ledger_eval)
  have l2: "lockStore (snd (UnlockCoins refKeeper exampleState ''A'' [coin ''btc'' (-1), coin ''btc'' (-1)] 1)) ''A''
       = Some [coin ''btc'' 6, coin ''btc'' 1]"
    by (simp add: ledger_eval)
  have l3: "lockStore (snd (LockCoins refKeeper exampleState ''A'' [coin ''btc'' 2] 1)) ''A''
             = Some [coin ''btc'' 7]"
    by (simp add: ledger_eval)
  have l4: "lockStore (snd (UnlockCoins refKeeper exampleState ''A'' [coin ''btc'' 5] 1)) ''A'' = None"
    by (simp add: ledger_eval)
  note T1 = lock_ledger_invariant[OF i, where coins = "[coin ''eth'' 1, coin ''btc'' 2]"
              and k = openKeeper and addr = "''B''" and lockCoinsType = 1
              and outputCoins = "[coin ''btc'' 5]" and inputCoins = "[]"]
  note T2 = lock_ledger_invariant[OF i, where coins = "[coin ''btc'' (-1), coin ''btc'' (-1)]"
              and k = refKeeper and addr = "''A''" and lockCoinsType = 1
              and outputCoins = "[coin ''btc'' 5]" and inputCoins = "[]"]
  note T3 = lock_ledger_invariant[OF i, where coins = "[coin ''btc'' 2]"
              and k = refKeeper and addr = "''A''" and lockCoinsType = 1
              and outputCoins = "[coin ''btc'' 5]" and inputCoins = "[]"]
  note T4 = lock_ledger_invariant[OF i, where coins = "[coin ''btc'' 5]"
              and k = refKeeper and addr = "''A''" and lockCoinsType = 1
              and outputCoins = "[coin ''btc'' 5]" and inputCoins = "[]"]
  show ?thesis
    using T1 T2 T3 T4 i lockInv_exampleState p v sd l1 l2 l3 l4 by simp
qed

text \<open>
  C8 as stated fails: \<open>LockCoins\<close> with a zero coin for an address without a record
  stores the zero coin, so the stored set has an amount that is not positive.
\<close>

theorem LockCoins_stores_zero_coin:
  "lockInv exampleState
   \<and> fst (LockCoins refKeeper exampleState ''B'' [coin ''btc'' 0] 1) = None
   \<and> lockStore (snd (LockCoins refKeeper exampleState ''B'' [coin ''btc'' 0] 1)) ''B''
       = Some [coin ''btc'' 0]
   \<and> \<not> ledgerInv (snd (LockCoins refKeeper exampleState ''B'' [coin ''btc'' 0] 1))
   \<and> \<not> lockInv (snd (LockCoins refKeeper exampleState ''B'' [coin ''btc'' 0] 1))"
proof -
  have a: "fst (LockCoins refKeeper exampleState ''B'' [coin ''btc'' 0] 1) = None"
    by (simp add: ledger_eval)
  have b: "lockStore (snd (LockCoins refKeeper exampleState ''B'' [coin ''btc'' 0] 1)) ''B''
             = Some [coin ''btc'' 0]"
    by (simp add: ledger_eval)
  have "\<not> validCoins [coin ''btc'' 0]" by (simp add: validCoins_def coin_def)
  then have "\<not> lockInv (snd (LockCoins refKeeper exampleState ''B'' [coin ''btc'' 0] 1))"
    using b unfolding lockInv_def by blast
  moreover have "\<not> positiveCoins [coin ''btc'' 0]" by (simp add: positiveCoins_def coin_def)
  then have "\<not> ledgerInv (snd (LockCoins refKeeper exampleState ''B'' [coin ''btc'' 0] 1))"
    using b unfolding ledgerInv_def by blast
  ultimately show ?thesis using a b lockInv_exampleState by simp
qed

section \<open>Properties of the token-pair registry\<close>

lemma GetTokenPair_state:
  "snd (GetTokenPair s product) = s\<lparr>cache := cache (snd (GetTokenPair s product))\<rparr>"
  by (simp add: GetTokenPair_def split: option.splits)

lemma GetTokenPair_again:
  assumes "fst (GetTokenPair s product) = Some tp"
  shows "fst (GetTokenPair (snd (GetTokenPair s product)) product) = Some tp"
proof (cases "Cache_GetTokenPair (cache s) product")
  case None
  then show ?thesis using assms
    by (cases "map_of (tokenPairStore s) product")
       (auto simp: GetTokenPair_def Cache_GetTokenPair_def Cache_AddTokenPair_def update_conv'
             split: option.splits)
next
  case (Some a)
  then show ?thesis using assms by (simp add: GetTokenPair_def)
qed

lemma GetTokenPair_eq:
  assumes "fst (GetTokenPair s product) = Some tp"
  shows "GetTokenPair s product = (Some tp, s\<lparr>cache := cache (snd (GetTokenPair s product))\<rparr>)"
  using assms GetTokenPair_state[of s product] by (simp add: prod_eq_iff)

text \<open>
  C5. \<open>SaveTokenPair\<close> followed by \<open>GetTokenPair\<close> on the pair's product key returns
  the record that was saved, which is also the record in the store: the argument with
  its ID set to counter + 1 when the ID was zero, and the argument itself otherwise. In
  particular saving a pair whose ID is not zero leaves its ID as it is.
\<close>

theorem SaveTokenPair_then_GetTokenPair:
  "(case SaveTokenPair s tp of
      (err, saved, s1) \<Rightarrow>
        err = None
        \<and> saved = tp\<lparr>ID := (if ID tp = 0 then GetTokenPairNum s + 1 else ID tp)\<rparr>
        \<and> GetTokenPair s1 (keyPair tp) = (Some saved, s1)
        \<and> map_of (tokenPairStore s1) (keyPair tp) = Some saved
        \<and> (ID tp \<noteq> 0 \<longrightarrow> ID saved = ID tp))"
  by (simp add: SaveTokenPair_def GetTokenPair_def Cache_GetTokenPair_def Cache_AddTokenPair_def
        Cache_AddNewTokenPair_def keyPair_def Let_def update_conv')

theorem SaveTokenPair_then_GetTokenPair_witness:
  "ID btc_usdt \<noteq> 0
   \<and> fst (snd (SaveTokenPair exampleState btc_usdt)) = btc_usdt
   \<and> fst (GetTokenPair (snd (snd (SaveTokenPair exampleState btc_usdt))) ''btc_usdt'') = Some btc_usdt"
proof -
  have i: "ID btc_usdt \<noteq> 0" by (simp add: btc_usdt_def)
  have k: "keyPair btc_usdt = ''btc_usdt''" by (simp add: keyPair_def btc_usdt_def)
  show ?thesis
    using i k SaveTokenPair_then_GetTokenPair[where s = exampleState and tp = btc_usdt]
    by (auto split: prod.splits)
qed

text \<open>
  C4. The counter does not only grow: \<open>SaveTokenPair\<close> stores the ID of the pair it is
  given as the new counter, also when that ID is smaller than the counter. Two new pairs
  get the IDs 1 and 2; saving the first one again sets the counter back to 1; the next
  new pair is then given the ID 2 a second time, while the pair that holds 2 is still
  in the store.
\<close>

theorem SaveTokenPair_counter_regresses:
  "(let (e1, btc, s1) = SaveTokenPair emptyState (newPair ''btc'' ''usdt'');
        (e2, eth, s2) = SaveTokenPair s1 (newPair ''eth'' ''usdt'');
        (e3, btc3, s3) = SaveTokenPair s2 btc;
        (e4, ltc, s4) = SaveTokenPair s3 (newPair ''ltc'' ''usdt'')
    in ID btc = 1 \<and> ID eth = 2 \<and> GetTokenPairNum s2 = 2
     \<and> GetTokenPairNum s3 = 1 \<and> ID ltc = 2
     \<and> map_of (tokenPairStore s4) ''eth_usdt'' = Some eth
     \<and> map_of (tokenPairStore s4) ''ltc_usdt'' = Some ltc)"
  by (simp add: SaveTokenPair_def GetTokenPairNum_def emptyState_def newPair_def keyPair_def Let_def)

section \<open>Properties of the withdrawal queue\<close>

lemmas withdraw_eval = Withdraw_def GetTokenPair_def Cache_GetTokenPair_def Cache_AddTokenPair_def
  exampleState_def pendingState_def laterState_def btc_usdt_def coin_def refKeeper_def
  DecCoin_IsLT_def DecCoin_Add_def DecCoin_Sub_def GetWithdrawInfo_def SetWithdrawInfo_def
  SetWithdrawCompleteTimeAddress_def DeleteWithdrawCompleteTimeAddress_def UpdateTokenPair_def
  keyPair_def Let_def

text \<open>
  C10. When the transfer from the module to the owner fails, \<open>CompleteWithdraw\<close>
  returns an error and the state it was given: the pending record is still in the
  store, so the completion can be tried again.
\<close>

theorem CompleteWithdraw_transfer_fails:
  assumes "GetWithdrawInfo s addr = Some w"
    and "SendCoinsFromModuleToAccount k (bank s) (ModuleName k) (wOwner w) (ToCoins (wDeposits w)) = Inl e"
  shows "CompleteWithdraw k s addr = (Some ErrInsufficientCoins, s)
       \<and> GetWithdrawInfo (snd (CompleteWithdraw k s addr)) addr = Some w"
  using assms by (simp add: CompleteWithdraw_def)

theorem CompleteWithdraw_transfer_fails_witness:
  "GetWithdrawInfo (pendingState\<lparr>bank := emptyBank\<rparr>) ''A''
     = Some \<lparr>wOwner = ''A'', wDeposits = coin ''okt'' 40, CompleteTime = 1500\<rparr>
   \<and> SendCoinsFromModuleToAccount refKeeper emptyBank (ModuleName refKeeper) ''A'' (ToCoins (coin ''okt'' 40))
       = Inl ErrSupply
   \<and> CompleteWithdraw refKeeper (pendingState\<lparr>bank := emptyBank\<rparr>) ''A''
       = (Some ErrInsufficientCoins, pendingState\<lparr>bank := emptyBank\<rparr>)"
proof -
  let ?w = "\<lparr>wOwner = ''A'', wDeposits = coin ''okt'' 40, CompleteTime = 1500\<rparr>"
  have g: "GetWithdrawInfo (pendingState\<lparr>bank := emptyBank\<rparr>) ''A'' = Some ?w"
    by (simp add: GetWithdrawInfo_def pendingState_def)
  have t: "SendCoinsFromModuleToAccount refKeeper (bank (pendingState\<lparr>bank := emptyBank\<rparr>))
              (ModuleName refKeeper) (wOwner ?w) (ToCoins (wDeposits ?w)) = Inl ErrSupply"
    by (simp add: refKeeper_def refSendCoinsFromModuleToAccount_def emptyBank_def ToCoins_def
          coin_def SafeSub_def negative_def removeZeroDecCoins_def DecCoin_IsZero_def IsAnyNegative_def)
  show ?thesis using g t CompleteWithdraw_transfer_fails[OF g t] by simp
qed

text \<open>
  C1, as the code has it. Without a pending record \<open>CompleteWithdraw\<close> fails with
  \<open>ErrInvalidAddress\<close> (``there is no withdrawing for address'') and changes nothing.
  With a pending record and a successful transfer, the whole pending amount goes from
  the module to the record's owner, the primary record is deleted, the time index is
  left as it was, and a second \<open>CompleteWithdraw\<close> for the same address fails with
  \<open>ErrInvalidAddress\<close>.
\<close>

theorem CompleteWithdraw_result:
  "(GetWithdrawInfo s addr = None \<longrightarrow> CompleteWithdraw k s addr = (Some ErrInvalidAddress, s))
   \<and> (\<forall>w b. GetWithdrawInfo s addr = Some w
          \<and> SendCoinsFromModuleToAccount k (bank s) (ModuleName k) (wOwner w) [wDeposits w] = Inr b
        \<longrightarrow> (let r = CompleteWithdraw k s addr
             in fst r = None
              \<and> bank (snd r) = b
              \<and> withdrawInfoStore (snd r) = (withdrawInfoStore s)(addr := None)
              \<and> withdrawTimeStore (snd r) = withdrawTimeStore s
              \<and> CompleteWithdraw k (snd r) addr = (Some ErrInvalidAddress, snd r)))"
  by (simp add: CompleteWithdraw_def GetWithdrawInfo_def deleteWithdrawInfo_def ToCoins_def Let_def)

theorem CompleteWithdraw_result_witness:
  "GetWithdrawInfo pendingState ''A''
     = Some \<lparr>wOwner = ''A'', wDeposits = coin ''okt'' 40, CompleteTime = 1500\<rparr>
   \<and> fst (CompleteWithdraw refKeeper pendingState ''A'') = None
   \<and> accounts (bank (snd (CompleteWithdraw refKeeper pendingState ''A''))) ''A''
       = [coin ''btc'' 3, coin ''okt'' 40]
   \<and> modules (bank (snd (CompleteWithdraw refKeeper pendingState ''A''))) ''dex'' = [coin ''okt'' 960]
   \<and> withdrawInfoStore (snd (CompleteWithdraw refKeeper pendingState ''A'')) ''A'' = None
   \<and> fst (CompleteWithdraw refKeeper (snd (CompleteWithdraw refKeeper pendingState ''A'')) ''A'')
       = Some ErrInvalidAddress
   \<and> GetWithdrawInfo exampleState ''A'' = None
   \<and> CompleteWithdraw refKeeper exampleState ''A'' = (Some ErrInvalidAddress, exampleState)"
proof -
  let ?w = "\<lparr>wOwner = ''A'', wDeposits = coin ''okt'' 40, CompleteTime = 1500\<rparr>"
  let ?b = "\<lparr>accounts = (\<lambda>_. [coin ''btc'' 3])(''A'' := [coin ''btc'' 3, coin ''okt'' 40]),
             modules = (\<lambda>_. [coin ''okt'' 1000])(''dex'' := [coin ''okt'' 960])\<rparr>"
  have g: "GetWithdrawInfo pendingState ''A'' = Some ?w"
    by (simp add: GetWithdrawInfo_def pendingState_def)
  have t: "SendCoinsFromModuleToAccount refKeeper (bank pendingState) (ModuleName refKeeper)
             (wOwner ?w) [wDeposits ?w] = Inr ?b"
    by (simp add: refKeeper_def refSendCoinsFromModuleToAccount_def pendingState_def exampleState_def
          coin_def SafeSub_def negative_def removeZeroDecCoins_def DecCoin_IsZero_def
          IsAnyNegative_def DecCoins_Add_def)
  from CompleteWithdraw_result[of pendingState "''A''" refKeeper] g t
  have "let r = CompleteWithdraw refKeeper pendingState ''A''
        in fst r = None \<and> bank (snd r) = ?b
         \<and> withdrawInfoStore (snd r) = (withdrawInfoStore pendingState)(''A'' := None)
         \<and> withdrawTimeStore (snd r) = withdrawTimeStore pendingState
         \<and> CompleteWithdraw refKeeper (snd r) ''A'' = (Some ErrInvalidAddress, snd r)"
    by blast
  moreover have n: "GetWithdrawInfo exampleState ''A'' = None"
    by (simp add: GetWithdrawInfo_def exampleState_def)
  moreover have "CompleteWithdraw refKeeper exampleState ''A'' = (Some ErrInvalidAddress, exampleState)"
    using CompleteWithdraw_result[of exampleState "''A''" refKeeper] n by blast
  ultimately show ?thesis using g by (simp add: Let_def)
qed

text \<open>
  C1 as stated fails: after a successful \<open>CompleteWithdraw\<close> the entry of the time index
  is still there. Only \<open>DeleteWithdrawCompleteTimeAddress\<close> removes it.
\<close>

theorem CompleteWithdraw_keeps_time_index:
  "GetWithdrawInfo pendingState ''A''
     = Some \<lparr>wOwner = ''A'', wDeposits = coin ''okt'' 40, CompleteTime = 1500\<rparr>
   \<and> (1500, ''A'') \<in> withdrawTimeStore pendingState
   \<and> fst (CompleteWithdraw refKeeper pendingState ''A'') = None
   \<and> (1500, ''A'') \<in> withdrawTimeStore (snd (CompleteWithdraw refKeeper pendingState ''A''))"
  by (simp add: CompleteWithdraw_def GetWithdrawInfo_def pendingState_def exampleState_def
        refKeeper_def refSendCoinsFromModuleToAccount_def ToCoins_def deleteWithdrawInfo_def
        coin_def SafeSub_def negative_def removeZeroDecCoins_def DecCoin_IsZero_def
        IsAnyNegative_def DecCoins_Add_def)

lemma Withdraw_success:
  assumes g: "GetTokenPair s product = (Some tp, s\<lparr>cache := c\<rparr>)"
    and "Owner tp = to"
    and "Denom amount = DefaultBondDenom k"
    and "Denom (Deposits tp) = Denom amount"
    and "\<not> Amount (Deposits tp) < Amount amount"
    and "\<forall>w. withdrawInfoStore s to = Some w \<longrightarrow> Denom (wDeposits w) = Denom amount"
  shows "Withdraw k s product to amount =
          (None,
           s\<lparr>tokenPairStore :=
                AList.update product
                  (tp\<lparr>Deposits := (Deposits tp)\<lparr>Amount := Amount (Deposits tp) - Amount amount\<rparr>\<rparr>)
                  (tokenPairStore s),
             withdrawInfoStore :=
               (withdrawInfoStore s)(wOwner (mergedWithdrawInfo s to amount) \<mapsto> mergedWithdrawInfo s to amount),
             withdrawTimeStore :=
               insert (blockTime s + WithdrawPeriod s, to)
                 (case withdrawInfoStore s to of
                    None \<Rightarrow> withdrawTimeStore s
                  | Some w \<Rightarrow> withdrawTimeStore s - {(CompleteTime w, to)}),
             cache := Cache_AddTokenPair c
                 (tp\<lparr>Deposits := (Deposits tp)\<lparr>Amount := Amount (Deposits tp) - Amount amount\<rparr>\<rparr>)\<rparr>)"
proof (cases "withdrawInfoStore s to")
  case None
  then show ?thesis using assms
    by (simp add: Withdraw_def DecCoin_IsLT_def DecCoin_Sub_def GetWithdrawInfo_def
          SetWithdrawInfo_def SetWithdrawCompleteTimeAddress_def UpdateTokenPair_def
          mergedWithdrawInfo_def Let_def)
next
  case (Some w)
  then show ?thesis using assms
    by (simp add: Withdraw_def DecCoin_IsLT_def DecCoin_Sub_def DecCoin_Add_def GetWithdrawInfo_def
          SetWithdrawInfo_def SetWithdrawCompleteTimeAddress_def DeleteWithdrawCompleteTimeAddress_def
          UpdateTokenPair_def mergedWithdrawInfo_def Let_def)
qed


text \<open>
  C2, as the code has it. A \<open>Withdraw\<close> by an owner with a pending record succeeds (the
  pair exists, the caller owns it, the amount is in the bond denom and does not exceed
  the deposit) and merges into that record: the pending amount becomes the sum, the
  completion time becomes the block time plus the withdraw period, the old entry of the
  time index is removed and an entry at the new completion time is inserted. When the
  owner's only entry was the old one and the new completion time is strictly later than
  the old one, a scan of the time index up to the old completion time finds no entry of
  that owner.
\<close>

theorem Withdraw_merges_pending:
  assumes "fst (GetTokenPair s product) = Some tp"
    and "Owner tp = payer"
    and "Denom amount = DefaultBondDenom k"
    and "Denom (Deposits tp) = Denom amount"
    and "\<not> Amount (Deposits tp) < Amount amount"
    and "GetWithdrawInfo s payer = Some w"
    and "wOwner w = payer"
    and "Denom (wDeposits w) = Denom amount"
  shows "(let r = Withdraw k s product payer amount;
              completeTime = blockTime s + WithdrawPeriod s
          in fst r = None
           \<and> withdrawInfoStore (snd r) =
               (withdrawInfoStore s)(payer \<mapsto>
                  w\<lparr>wDeposits := (wDeposits w)\<lparr>Amount := Amount (wDeposits w) + Amount amount\<rparr>,
                    CompleteTime := completeTime\<rparr>)
           \<and> withdrawTimeStore (snd r) =
               insert (completeTime, payer) (withdrawTimeStore s - {(CompleteTime w, payer)})
           \<and> ((\<forall>t. (t, payer) \<in> withdrawTimeStore s \<longrightarrow> t = CompleteTime w)
                \<and> CompleteTime w < completeTime
              \<longrightarrow> (\<forall>key \<in> withdrawTimeKeyIterator (snd r) (CompleteTime w). snd key \<noteq> payer)))"
proof -
  have ws: "withdrawInfoStore s payer = Some w"
    using assms(6) by (simp add: GetWithdrawInfo_def)
  have d: "\<forall>w'. withdrawInfoStore s payer = Some w' \<longrightarrow> Denom (wDeposits w') = Denom amount"
    using ws assms(8) by simp
  note W = Withdraw_success[OF GetTokenPair_eq[OF assms(1)] assms(2,3,4,5) d]
  show ?thesis
    unfolding W Let_def
    using ws assms(7)
    by (auto simp: mergedWithdrawInfo_def withdrawTimeKeyIterator_def)
qed

theorem Withdraw_merges_pending_witness:
  "fst (GetTokenPair laterState ''btc_usdt'') = Some btc_usdt
   \<and> GetWithdrawInfo laterState ''A''
       = Some \<lparr>wOwner = ''A'', wDeposits = coin ''okt'' 40, CompleteTime = 1500\<rparr>
   \<and> blockTime laterState < 1500
   \<and> fst (Withdraw refKeeper laterState ''btc_usdt'' ''A'' (coin ''okt'' 60)) = None
   \<and> withdrawInfoStore (snd (Withdraw refKeeper laterState ''btc_usdt'' ''A'' (coin ''okt'' 60))) ''A''
       = Some \<lparr>wOwner = ''A'', wDeposits = coin ''okt'' 100, CompleteTime = 1700\<rparr>
   \<and> withdrawTimeStore (snd (Withdraw refKeeper laterState ''btc_usdt'' ''A'' (coin ''okt'' 60)))
       = {(1700, ''A'')}
   \<and> withdrawTimeKeyIterator
         (snd (Withdraw refKeeper laterState ''btc_usdt'' ''A'' (coin ''okt'' 60))) 1500 = {}
   \<and> (1700, ''A'') \<in> withdrawTimeKeyIterator
         (snd (Withdraw refKeeper laterState ''btc_usdt'' ''A'' (coin ''okt'' 60))) 1700"
proof -
  let ?w = "\<lparr>wOwner = ''A'', wDeposits = coin ''okt'' 40, CompleteTime = 1500\<rparr>"
  have h1: "fst (GetTokenPair laterState ''btc_usdt'') = Some btc_usdt"
    by (simp add: withdraw_eval)
  have h2: "Owner btc_usdt = ''A''" by (simp add: btc_usdt_def)
  have h3: "Denom (coin ''okt'' 60) = DefaultBondDenom refKeeper" by (simp add: coin_def refKeeper_def)
  have h4: "Denom (Deposits btc_usdt) = Denom (coin ''okt'' 60)" by (simp add: coin_def btc_usdt_def)
  have h5: "\<not> Amount (Deposits btc_usdt) < Amount (coin ''okt'' 60)" by (simp add: coin_def btc_usdt_def)
  have h6: "GetWithdrawInfo laterState ''A'' = Some ?w" by (simp add: withdraw_eval)
  have h7: "wOwner ?w = ''A''" by simp
  have h8: "Denom (wDeposits ?w) = Denom (coin ''okt'' 60)" by (simp add: coin_def)
  have i: "\<forall>t. (t, ''A'') \<in> withdrawTimeStore laterState \<longrightarrow> t = CompleteTime ?w"
    by (simp add: withdraw_eval)
  have j: "CompleteTime ?w < blockTime laterState + WithdrawPeriod laterState"
    "blockTime laterState + WithdrawPeriod laterState = 1700"
    "withdrawInfoStore laterState = [''A'' \<mapsto> ?w]" "withdrawTimeStore laterState = {(1500, ''A'')}"
    "blockTime laterState < 1500"
    by (simp_all add: withdraw_eval)
  from Withdraw_merges_pending[OF h1 h2 h3 h4 h5 h6 h7 h8] i j
  show ?thesis using h1 h6 by (auto simp: Let_def coin_def withdrawTimeKeyIterator_def)
qed

text \<open>
  C2 as stated fails when the second \<open>Withdraw\<close> runs at the block time of the first:
  it is before maturity, the new completion time equals the old one, and the scan up to
  the first call's maturity finds the owner's re-inserted entry.
\<close>

theorem Withdraw_same_block_counterexample:
  "GetWithdrawInfo afterFirstWithdraw ''A''
     = Some \<lparr>wOwner = ''A'', wDeposits = coin ''okt'' 40, CompleteTime = 1500\<rparr>
   \<and> blockTime afterFirstWithdraw < 1500
   \<and> fst (Withdraw refKeeper afterFirstWithdraw ''btc_usdt'' ''A'' (coin ''okt'' 60)) = None
   \<and> (1500, ''A'') \<in> withdrawTimeKeyIterator
         (snd (Withdraw refKeeper afterFirstWithdraw ''btc_usdt'' ''A'' (coin ''okt'' 60))) 1500"
  by (simp add: afterFirstWithdraw_def withdraw_eval withdrawTimeKeyIterator_def)

lemma mergedWithdrawInfo_owner:
  "\<forall>w. withdrawInfoStore s to = Some w \<longrightarrow> wOwner w = to
   \<Longrightarrow> wOwner (mergedWithdrawInfo s to amount) = to"
  by (simp add: mergedWithdrawInfo_def split: option.splits)

text \<open>
  C6. For a product that \<open>GetTokenPair\<close> finds: \<open>TransferOwnership\<close> fails with
  \<open>ErrUnauthorized\<close> unless \<open>from\<close> is the pair's owner. For the owner it succeeds (the
  deposit, when positive, is in the bond denom, as is a pending record of \<open>from\<close>). When
  the deposit is positive it first runs \<open>Withdraw\<close> for the whole deposit under \<open>from\<close>,
  which leaves the pending record of \<open>from\<close> and its time-index entry. Then the pair
  with owner \<open>to\<close> and the default deposit is written to the store and the cache, the
  owner-index entry of \<open>from\<close> is deleted and the one of \<open>to\<close> is inserted.
\<close>

theorem TransferOwnership_result:
  assumes "fst (GetTokenPair s product) = Some tp"
  shows "(Owner tp \<noteq> from \<longrightarrow>
            TransferOwnership k s product from to
              = (Some ErrUnauthorized, snd (GetTokenPair s product)))
       \<and> (Owner tp = from
            \<and> (0 < Amount (Deposits tp) \<longrightarrow>
                  Denom (Deposits tp) = DefaultBondDenom k
                  \<and> (\<forall>w. withdrawInfoStore s from = Some w
                         \<longrightarrow> wOwner w = from \<and> Denom (wDeposits w) = DefaultBondDenom k))
          \<longrightarrow> (let r = TransferOwnership k s product from to;
                    s0 = snd (GetTokenPair s product);
                    tp1 = tp\<lparr>Owner := to, Deposits := DefaultTokenPairDeposit k\<rparr>
                in fst r = None
                 \<and> map_of (tokenPairStore (snd r)) product = Some tp1
                 \<and> map_of (tokenPairMap (cache (snd r))) (keyPair tp) = Some tp1
                 \<and> userTokenPairStore (snd r)
                     = insert (to, product) (userTokenPairStore s - {(from, product)})
                 \<and> (if 0 < Amount (Deposits tp)
                    then fst (Withdraw k s0 product from (Deposits tp)) = None
                       \<and> UpdateUserTokenPair
                           (UpdateTokenPair (snd (Withdraw k s0 product from (Deposits tp)))
                              product tp1) product from to = snd r
                       \<and> withdrawInfoStore (snd r) from
                           = Some (mergedWithdrawInfo s from (Deposits tp))
                       \<and> (blockTime s + WithdrawPeriod s, from) \<in> withdrawTimeStore (snd r)
                    else withdrawInfoStore (snd r) = withdrawInfoStore s
                       \<and> withdrawTimeStore (snd r) = withdrawTimeStore s)))"
proof -
  define s0 where "s0 = snd (GetTokenPair s product)"
  have g: "GetTokenPair s product = (Some tp, s0)"
    using assms by (simp add: s0_def prod_eq_iff)
  have s0: "s0 = s\<lparr>cache := cache s0\<rparr>"
    unfolding s0_def by (rule GetTokenPair_state)
  have f: "withdrawInfoStore s0 = withdrawInfoStore s" "withdrawTimeStore s0 = withdrawTimeStore s"
    "userTokenPairStore s0 = userTokenPairStore s" "blockTime s0 = blockTime s"
    "WithdrawPeriod s0 = WithdrawPeriod s"
    by (subst s0, simp)+
  have A: "TransferOwnership k s product from to = (Some ErrUnauthorized, s0)"
    if "Owner tp \<noteq> from"
    using that g by (simp add: TransferOwnership_def)
  have B: "fst r = None
         \<and> map_of (tokenPairStore (snd r)) product = Some tp1
         \<and> map_of (tokenPairMap (cache (snd r))) (keyPair tp) = Some tp1
         \<and> userTokenPairStore (snd r)
             = insert (to, product) (userTokenPairStore s - {(from, product)})
         \<and> withdrawInfoStore (snd r) = withdrawInfoStore s
         \<and> withdrawTimeStore (snd r) = withdrawTimeStore s"
    if "Owner tp = from" and "\<not> 0 < Amount (Deposits tp)"
      and "r = TransferOwnership k s product from to"
      and "tp1 = tp\<lparr>Owner := to, Deposits := DefaultTokenPairDeposit k\<rparr>"
    for r tp1
    using that g f
    by (simp add: TransferOwnership_def DecCoin_IsPositive_def Let_def UpdateUserTokenPair_def
          UpdateTokenPair_def Cache_AddTokenPair_def keyPair_def update_conv')
  have C: "fst r = None
         \<and> map_of (tokenPairStore (snd r)) product = Some tp1
         \<and> map_of (tokenPairMap (cache (snd r))) (keyPair tp) = Some tp1
         \<and> userTokenPairStore (snd r)
             = insert (to, product) (userTokenPairStore s - {(from, product)})
         \<and> fst (Withdraw k s0 product from (Deposits tp)) = None
         \<and> UpdateUserTokenPair
               (UpdateTokenPair (snd (Withdraw k s0 product from (Deposits tp)))
                  product tp1) product from to = snd r
         \<and> withdrawInfoStore (snd r) from = Some (mergedWithdrawInfo s from (Deposits tp))
         \<and> (blockTime s + WithdrawPeriod s, from) \<in> withdrawTimeStore (snd r)"
    if o: "Owner tp = from" and p: "0 < Amount (Deposits tp)"
      and b: "Denom (Deposits tp) = DefaultBondDenom k"
      and w: "\<forall>w. withdrawInfoStore s from = Some w
                 \<longrightarrow> wOwner w = from \<and> Denom (wDeposits w) = DefaultBondDenom k"
      and r: "r = TransferOwnership k s product from to"
      and t: "tp1 = tp\<lparr>Owner := to, Deposits := DefaultTokenPairDeposit k\<rparr>"
    for r tp1
  proof -
    have g2: "fst (GetTokenPair s0 product) = Some tp"
      unfolding s0_def using assms by (rule GetTokenPair_again)
    have d: "\<forall>w. withdrawInfoStore s0 from = Some w \<longrightarrow> Denom (wDeposits w) = Denom (Deposits tp)"
      using w b f by simp
    have m: "mergedWithdrawInfo s0 from (Deposits tp) = mergedWithdrawInfo s from (Deposits tp)"
      by (simp add: mergedWithdrawInfo_def f split: option.splits)
    have ow: "wOwner (mergedWithdrawInfo s from (Deposits tp)) = from"
      using w by (simp add: mergedWithdrawInfo_owner)
    have nl: "\<not> Amount (Deposits tp) < Amount (Deposits tp)" by simp
    note W = Withdraw_success[OF GetTokenPair_eq[OF g2] o sym[OF b, THEN sym] refl nl d]
    have res: "r = (None, UpdateUserTokenPair
                     (UpdateTokenPair (snd (Withdraw k s0 product from (Deposits tp)))
                        product tp1) product from to)"
      using r t g o p W by (simp add: TransferOwnership_def DecCoin_IsPositive_def Let_def)
    show ?thesis
      unfolding res W
      using m ow f t
      by (simp add: UpdateUserTokenPair_def UpdateTokenPair_def Cache_AddTokenPair_def
            keyPair_def update_conv')
  qed
  show ?thesis
    unfolding Let_def s0_def[symmetric]
  proof ((rule conjI; rule impI), goal_cases)
    case 1
    then show ?case by (rule A)
  next
    case 2
    show ?case
    proof (cases "0 < Amount (Deposits tp)")
      case True
      from 2 True have o: "Owner tp = from"
        and b: "Denom (Deposits tp) = DefaultBondDenom k"
        and w: "\<forall>w. withdrawInfoStore s from = Some w
                   \<longrightarrow> wOwner w = from \<and> Denom (wDeposits w) = DefaultBondDenom k"
        by simp_all
      show ?thesis
        unfolding if_P[OF True] by (rule C[OF o True b w refl refl])
    next
      case False
      from 2 have o: "Owner tp = from" by simp
      show ?thesis
        unfolding if_not_P[OF False] by (rule B[OF o False refl refl])
    qed
  qed
qed

theorem TransferOwnership_result_witness:
  "fst (GetTokenPair exampleState ''btc_usdt'') = Some btc_usdt
   \<and> Owner btc_usdt = ''A'' \<and> 0 < Amount (Deposits btc_usdt)
   \<and> fst (TransferOwnership refKeeper exampleState ''btc_usdt'' ''A'' ''B'') = None
   \<and> map_of (tokenPairStore (snd (TransferOwnership refKeeper exampleState ''btc_usdt'' ''A'' ''B'')))
        ''btc_usdt'' = Some (btc_usdt\<lparr>Owner := ''B'', Deposits := coin ''okt'' 10\<rparr>)
   \<and> userTokenPairStore (snd (TransferOwnership refKeeper exampleState ''btc_usdt'' ''A'' ''B''))
       = {(''B'', ''btc_usdt'')}
   \<and> withdrawInfoStore (snd (TransferOwnership refKeeper exampleState ''btc_usdt'' ''A'' ''B'')) ''A''
       = Some \<lparr>wOwner = ''A'', wDeposits = coin ''okt'' 100, CompleteTime = 1500\<rparr>
   \<and> fst (TransferOwnership refKeeper exampleState ''btc_usdt'' ''B'' ''A'') = Some ErrUnauthorized"
proof -
  have g: "fst (GetTokenPair exampleState ''btc_usdt'') = Some btc_usdt" by (simp add: withdraw_eval)
  have o: "Owner btc_usdt = ''A''" "0 < Amount (Deposits btc_usdt)"
    "Denom (Deposits btc_usdt) = DefaultBondDenom refKeeper"
    "withdrawInfoStore exampleState ''A'' = None"
    "DefaultTokenPairDeposit refKeeper = coin ''okt'' 10"
    "userTokenPairStore exampleState = {(''A'', ''btc_usdt'')}"
    "mergedWithdrawInfo exampleState ''A'' (Deposits btc_usdt)
       = \<lparr>wOwner = ''A'', wDeposits = coin ''okt'' 100, CompleteTime = 1500\<rparr>"
    by (simp_all add: withdraw_eval mergedWithdrawInfo_def)
  have x: "''A'' \<noteq> ''B''" by simp
  show ?thesis
    using TransferOwnership_result[OF g, of "''A''" refKeeper "''B''"]
          TransferOwnership_result[OF g, of "''B''" refKeeper "''A''"] g o
    by (simp add: Let_def)
qed

section \<open>Properties of the product order\<close>

lemma insertTokenPair_insort: "insertTokenPair x ys = insort_key keyPair x ys"
  by (induction ys) (auto simp: TokenPairs_Less_def)

lemma sortTokenPairs_sort_key: "sortTokenPairs xs = sort_key keyPair xs"
proof -
  have "insertTokenPair = insort_key keyPair"
    by (intro ext) (rule insertTokenPair_insort)
  then show ?thesis by (simp add: sortTokenPairs_def sort_key_def)
qed


lemma length_sortTokenPairs [simp]: "length (sortTokenPairs xs) = length xs"
  by (simp add: sortTokenPairs_sort_key)











end
